theory Spec2Isabelle
  imports Complex_Main
begin

section \<open>The activations of larq/activations.py\<close>

text \<open>
  The module defines three activations, \<^verbatim>\<open>hard_tanh\<close>, \<^verbatim>\<open>hard_sigmoid\<close> and
  \<^verbatim>\<open>leaky_tanh\<close>, each a single expression over TensorFlow primitives, and two Keras
  layers, \<^verbatim>\<open>HardTanh\<close> and \<^verbatim>\<open>HardSigmoid\<close>, that forward to them.

  The expressions are embedded twice: on one entry of a tensor (a real number), and on a
  whole tensor (a shape and its entries in row-major order). Entries are mathematical
  reals: rounding, NaN and the infinities of IEEE-754 are outside this development.
\<close>

subsection \<open>TensorFlow primitives on one entry\<close>

text \<open>
  \<^verbatim>\<open>tf.math.maximum\<close> and \<^verbatim>\<open>tf.math.minimum\<close> are the larger and the smaller of two numbers.
  \<^verbatim>\<open>tf.clip_by_value(t, clip_value_min, clip_value_max)\<close> first takes the minimum with
  \<^verbatim>\<open>clip_value_max\<close> and then the maximum with \<^verbatim>\<open>clip_value_min\<close>; it does not compare the
  two bounds.
\<close>

definition maximum :: "real \<Rightarrow> real \<Rightarrow> real" where
  "maximum x y = (if x \<le> y then y else x)"

definition minimum :: "real \<Rightarrow> real \<Rightarrow> real" where
  "minimum x y = (if x \<le> y then x else y)"

definition clip_by_value :: "real \<Rightarrow> real \<Rightarrow> real \<Rightarrow> real" where
  "clip_by_value t clip_value_min clip_value_max =
     maximum (minimum t clip_value_max) clip_value_min"

subsection \<open>The activations on one entry\<close>

text \<open>\<^verbatim>\<open>return tf.clip_by_value(x, lower_b, upper_b)\<close>\<close>

definition hard_tanh :: "real \<Rightarrow> real \<Rightarrow> real \<Rightarrow> real" where
  "hard_tanh x lower_b upper_b = clip_by_value x lower_b upper_b"

text \<open>\<^verbatim>\<open>return tf.clip_by_value(x+0.5, 0.0, 1.0)\<close>\<close>

definition hard_sigmoid :: "real \<Rightarrow> real" where
  "hard_sigmoid x = clip_by_value (x + 0.5) 0.0 1.0"

text \<open>
  \<^verbatim>\<open>return (tf.clip_by_value(x, -1, 1)
          + (tf.math.maximum(x, 1) - 1) * alpha
          + (tf.math.minimum(x, -1) + 1) * alpha)\<close>
\<close>

definition leaky_tanh :: "real \<Rightarrow> real \<Rightarrow> real" where
  "leaky_tanh x alpha =
     clip_by_value x (- 1) 1
     + (maximum x 1 - 1) * alpha
     + (minimum x (- 1) + 1) * alpha"

text \<open>The call \<^verbatim>\<open>hard_tanh(x)\<close>, which leaves both bounds at their defaults.\<close>

definition hard_tanh_default :: "real \<Rightarrow> real" where
  "hard_tanh_default x = hard_tanh x (- 1.0) 1.0"

subsection \<open>Tensors\<close>

text \<open>
  A tensor is its shape and its entries in row-major order. A scalar has shape \<open>[]\<close> and
  one entry; a tensor with a dimension of size 0 has no entry.
\<close>

record tensor =
  shape :: "nat list"
  entries :: "real list"

definition well_shaped :: "tensor \<Rightarrow> bool" where
  "well_shaped t = (length (entries t) = prod_list (shape t))"

text \<open>
  A Python number used as an operand (\<^verbatim>\<open>1\<close>, \<^verbatim>\<open>0.5\<close>, \<^verbatim>\<open>alpha\<close>, the bounds) becomes a
  scalar tensor that TensorFlow broadcasts against every entry of the other operand: the
  result has the shape of the tensor operand.
\<close>

definition with_scalar :: "(real \<Rightarrow> real \<Rightarrow> real) \<Rightarrow> tensor \<Rightarrow> real \<Rightarrow> tensor" where
  "with_scalar f t c = t\<lparr>entries := map (\<lambda>v. f v c) (entries t)\<rparr>"

definition t_maximum :: "tensor \<Rightarrow> real \<Rightarrow> tensor" where
  "t_maximum t c = with_scalar maximum t c"

definition t_minimum :: "tensor \<Rightarrow> real \<Rightarrow> tensor" where
  "t_minimum t c = with_scalar minimum t c"

definition t_add_scalar :: "tensor \<Rightarrow> real \<Rightarrow> tensor" where
  "t_add_scalar t c = with_scalar (+) t c"

definition t_sub_scalar :: "tensor \<Rightarrow> real \<Rightarrow> tensor" where
  "t_sub_scalar t c = with_scalar (-) t c"

definition t_mul_scalar :: "tensor \<Rightarrow> real \<Rightarrow> tensor" where
  "t_mul_scalar t c = with_scalar (*) t c"

definition t_clip_by_value :: "tensor \<Rightarrow> real \<Rightarrow> real \<Rightarrow> tensor" where
  "t_clip_by_value t clip_value_min clip_value_max =
     t_maximum (t_minimum t clip_value_max) clip_value_min"

text \<open>
  The sum of two tensors. Operands of one shape are added entry by entry. Operands of
  different shapes are broadcast by TensorFlow when the shapes are compatible and rejected
  otherwise; the activations only add tensors computed from one input, so the embedding
  covers the first case and reports every other one as an error rather than pairing up
  entries that do not belong together.
\<close>

datatype tf_error = Shapes_Differ "nat list" "nat list"

definition t_add :: "tensor \<Rightarrow> tensor \<Rightarrow> tf_error + tensor" where
  "t_add a b =
     (if shape a = shape b \<and> length (entries a) = length (entries b)
      then Inr (a\<lparr>entries := map (\<lambda>(v, w). v + w) (zip (entries a) (entries b))\<rparr>)
      else Inl (Shapes_Differ (shape a) (shape b)))"

subsection \<open>The activations on a tensor\<close>

definition hard_tanh_t :: "tensor \<Rightarrow> real \<Rightarrow> real \<Rightarrow> tensor" where
  "hard_tanh_t x lower_b upper_b = t_clip_by_value x lower_b upper_b"

definition hard_sigmoid_t :: "tensor \<Rightarrow> tensor" where
  "hard_sigmoid_t x = t_clip_by_value (t_add_scalar x 0.5) 0.0 1.0"

definition leaky_tanh_t :: "tensor \<Rightarrow> real \<Rightarrow> tf_error + tensor" where
  "leaky_tanh_t x alpha =
     (case t_add (t_clip_by_value x (- 1) 1)
                 (t_mul_scalar (t_sub_scalar (t_maximum x 1) 1) alpha) of
        Inl e \<Rightarrow> Inl e
      | Inr s \<Rightarrow> t_add s (t_mul_scalar (t_add_scalar (t_minimum x (- 1)) 1) alpha))"

subsection \<open>The layers\<close>

text \<open>
  Both classes derive from \<^verbatim>\<open>tf.keras.layers.Layer\<close>, which is not part of this module. Of
  the base class the embedding keeps the list of trainable weights: the base constructor
  starts it empty, \<^verbatim>\<open>add_weight\<close> would extend it, and the inherited property
  \<^verbatim>\<open>trainable_weights\<close> reads it. Neither class calls \<^verbatim>\<open>add_weight\<close>.
\<close>

record Layer =
  trainable_weights :: "tensor list"

definition Layer_init :: Layer where
  "Layer_init = \<lparr>trainable_weights = []\<rparr>"

text \<open>
  \<^verbatim>\<open>__init__(self, lower_b=-1.0, upper_b=1.0)\<close> stores the two bounds and runs the base
  constructor.
\<close>

record HardTanh = Layer +
  lower_b :: real
  upper_b :: real

definition HardTanh_init :: "real \<Rightarrow> real \<Rightarrow> HardTanh" where
  "HardTanh_init lb ub =
     \<lparr>trainable_weights = trainable_weights Layer_init, lower_b = lb, upper_b = ub\<rparr>"

definition HardTanh_call :: "HardTanh \<Rightarrow> tensor \<Rightarrow> tensor" where
  "HardTanh_call self inputs = hard_tanh_t inputs (lower_b self) (upper_b self)"

definition HardTanh_non_trainable_weights :: "HardTanh \<Rightarrow> tensor list" where
  "HardTanh_non_trainable_weights self = []"

definition HardTanh_compute_output_shape :: "HardTanh \<Rightarrow> 's \<Rightarrow> 's" where
  "HardTanh_compute_output_shape self input_shape = input_shape"

text \<open>\<^verbatim>\<open>HardSigmoid\<close> adds no attribute of its own to the base class.\<close>

type_synonym HardSigmoid = Layer

definition HardSigmoid_init :: HardSigmoid where
  "HardSigmoid_init = Layer_init"

definition HardSigmoid_call :: "HardSigmoid \<Rightarrow> tensor \<Rightarrow> tensor" where
  "HardSigmoid_call self inputs = hard_sigmoid_t inputs"

definition HardSigmoid_non_trainable_weights :: "HardSigmoid \<Rightarrow> tensor list" where
  "HardSigmoid_non_trainable_weights self = []"

definition HardSigmoid_compute_output_shape :: "HardSigmoid \<Rightarrow> 's \<Rightarrow> 's" where
  "HardSigmoid_compute_output_shape self input_shape = input_shape"

subsection \<open>The specification's clamp\<close>

text \<open>
  The specification's glossary: a clamp bounds a value to a closed interval,
  \<^verbatim>\<open>clamp(v, lo, hi) = max(lo, min(v, hi))\<close>.
\<close>

definition spec_clamp :: "real \<Rightarrow> real \<Rightarrow> real \<Rightarrow> real" where
  "spec_clamp v lo hi = max lo (min v hi)"

section \<open>Properties\<close>

subsection \<open>Auxiliary facts\<close>

lemmas entry_prims = maximum_def minimum_def clip_by_value_def

lemmas tensor_prims = with_scalar_def t_maximum_def t_minimum_def t_add_scalar_def
  t_sub_scalar_def t_mul_scalar_def t_clip_by_value_def

lemma clip_by_value_is_clamp: "clip_by_value t lo hi = spec_clamp t lo hi"
  by (simp add: entry_prims spec_clamp_def max_def min_def)

lemma add_zipped_maps:
  "map (\<lambda>(v, w). v + w) (zip (map f xs) (map g xs)) = map (\<lambda>v. f v + g v) xs"
  by (induction xs) simp_all

lemma leaky_tanh_max_min:
  "leaky_tanh v alpha =
     max (min v 1) (- 1) + (max v 1 - 1) * alpha + (min v (- 1) + 1) * alpha"
  by (simp add: leaky_tanh_def entry_prims max_def min_def)

lemma leaky_tanh_isCont: "isCont (\<lambda>v. leaky_tanh v alpha) z"
  unfolding leaky_tanh_max_min by (intro continuous_intros)

lemma leaky_tanh_t_scalar:
  "leaky_tanh_t \<lparr>shape = [], entries = [2]\<rparr> (1/5) = Inr \<lparr>shape = [], entries = [6/5]\<rparr>"
  by (simp add: leaky_tanh_t_def t_add_def tensor_prims entry_prims)

lemma leaky_tanh_t_no_entry:
  "leaky_tanh_t \<lparr>shape = [0, 3], entries = []\<rparr> (1/5) = Inr \<lparr>shape = [0, 3], entries = []\<rparr>"
  by (simp add: leaky_tanh_t_def t_add_def tensor_prims)

lemma leaky_tanh_t_matrix:
  "leaky_tanh_t \<lparr>shape = [2, 2], entries = [- 3, - 1/2, 1, 6]\<rparr> (1/5)
     = Inr \<lparr>shape = [2, 2], entries = [- 7/5, - 1/2, 1, 2]\<rparr>"
  by (simp add: leaky_tanh_t_def t_add_def tensor_prims entry_prims)

subsection \<open>The piecewise form of leaky\_tanh\<close>

text \<open>
  C1: for every real \<open>x\<close> and every real \<open>alpha\<close>, \<open>leaky_tanh x alpha\<close> is \<open>x\<close> on
  \<open>[-1, 1]\<close>, \<open>1 + alpha * (x - 1)\<close> above \<open>1\<close> and \<open>-1 + alpha * (x + 1)\<close> below \<open>-1\<close>;
  the function is continuous at \<open>1\<close> and at \<open>-1\<close>.
\<close>

theorem leaky_tanh_piecewise:
  "(- 1 \<le> x \<and> x \<le> 1 \<longrightarrow> leaky_tanh x alpha = x)
   \<and> (1 < x \<longrightarrow> leaky_tanh x alpha = 1 + alpha * (x - 1))
   \<and> (x < - 1 \<longrightarrow> leaky_tanh x alpha = - 1 + alpha * (x + 1))
   \<and> isCont (\<lambda>v. leaky_tanh v alpha) 1
   \<and> isCont (\<lambda>v. leaky_tanh v alpha) (- 1)"
proof -
  have inside: "- 1 \<le> x \<and> x \<le> 1 \<longrightarrow> leaky_tanh x alpha = x"
    by (simp add: leaky_tanh_def entry_prims)
  have above: "1 < x \<longrightarrow> leaky_tanh x alpha = 1 + alpha * (x - 1)"
    by (simp add: leaky_tanh_def entry_prims)
  have below: "x < - 1 \<longrightarrow> leaky_tanh x alpha = - 1 + alpha * (x + 1)"
    by (simp add: leaky_tanh_def entry_prims)
  from inside above below show ?thesis
    by (simp add: leaky_tanh_isCont)
qed

theorem leaky_tanh_piecewise_witness:
  "(- 1 \<le> (1/2 :: real) \<and> (1/2 :: real) \<le> 1) \<and> leaky_tanh (1/2) (1/5) = 1/2
   \<and> (1 :: real) < 3 \<and> leaky_tanh 3 (1/5) = 1 + 1/5 * (3 - 1)
   \<and> (- 3 :: real) < - 1 \<and> leaky_tanh (- 3) (1/5) = - 1 + 1/5 * (- 3 + 1)"
  using leaky_tanh_piecewise [of "1/2" "1/5"] leaky_tanh_piecewise [of 3 "1/5"]
    leaky_tanh_piecewise [of "- 3" "1/5"]
  by simp

subsection \<open>hard\_tanh clamps\<close>

text \<open>
  C2: for all reals \<open>x\<close>, \<open>lower_b\<close>, \<open>upper_b\<close>, \<open>hard_tanh x lower_b upper_b\<close> is
  \<open>max lower_b (min x upper_b)\<close>, the specification's clamp of \<open>x\<close>; when
  \<open>lower_b \<le> x \<le> upper_b\<close> it is \<open>x\<close>; and with the default bounds \<open>-1\<close> and \<open>1\<close> the
  result lies in \<open>[-1, 1]\<close>.
\<close>

theorem hard_tanh_clamps:
  "hard_tanh x lo hi = max lo (min x hi)
   \<and> hard_tanh x lo hi = spec_clamp x lo hi
   \<and> (lo \<le> x \<and> x \<le> hi \<longrightarrow> hard_tanh x lo hi = x)
   \<and> - 1 \<le> hard_tanh_default x \<and> hard_tanh_default x \<le> 1"
  by (auto simp: hard_tanh_def hard_tanh_default_def entry_prims spec_clamp_def)

theorem hard_tanh_clamps_witness:
  "((- 2 :: real) \<le> 1/2 \<and> (1/2 :: real) \<le> 3) \<and> hard_tanh (1/2) (- 2) 3 = 1/2"
  using hard_tanh_clamps [of "1/2" "- 2" 3] by simp

subsection \<open>hard\_sigmoid\<close>

text \<open>
  C3: for every real \<open>x\<close>, \<open>hard_sigmoid x\<close> is the clamp of \<open>x + 0.5\<close> to \<open>[0, 1]\<close>; it lies
  in \<open>[0, 1]\<close>; and \<open>hard_sigmoid (-0.5) = 0\<close>, \<open>hard_sigmoid 0.5 = 1\<close>,
  \<open>hard_sigmoid 0 = 0.5\<close>.
\<close>

theorem hard_sigmoid_clamps:
  "hard_sigmoid x = spec_clamp (x + 0.5) 0.0 1.0
   \<and> 0 \<le> hard_sigmoid x \<and> hard_sigmoid x \<le> 1
   \<and> hard_sigmoid (- 0.5) = 0 \<and> hard_sigmoid 0.5 = 1 \<and> hard_sigmoid 0 = 0.5"
  by (auto simp: hard_sigmoid_def entry_prims spec_clamp_def)

subsection \<open>The activations act entry by entry\<close>

text \<open>
  C4: for every tensor, of any shape and with any number of entries, the output of
  \<open>hard_tanh\<close>, \<open>hard_sigmoid\<close> and \<open>leaky_tanh\<close> has the shape of the input, and its
  entries are the entries of the input under the corresponding function on reals, each
  at its place; \<open>leaky_tanh\<close>, which adds tensors, returns a tensor and no error. The
  output is well shaped exactly when the input is.
\<close>

theorem activations_entrywise:
  "shape (hard_tanh_t t lo hi) = shape t
   \<and> entries (hard_tanh_t t lo hi) = map (\<lambda>v. hard_tanh v lo hi) (entries t)
   \<and> well_shaped (hard_tanh_t t lo hi) = well_shaped t
   \<and> shape (hard_sigmoid_t t) = shape t
   \<and> entries (hard_sigmoid_t t) = map hard_sigmoid (entries t)
   \<and> well_shaped (hard_sigmoid_t t) = well_shaped t
   \<and> (\<exists>r. leaky_tanh_t t alpha = Inr r
          \<and> shape r = shape t
          \<and> entries r = map (\<lambda>v. leaky_tanh v alpha) (entries t)
          \<and> well_shaped r = well_shaped t)"
proof -
  have ht: "hard_tanh_t t lo hi = t\<lparr>entries := map (\<lambda>v. hard_tanh v lo hi) (entries t)\<rparr>"
    by (simp add: hard_tanh_t_def tensor_prims hard_tanh_def clip_by_value_def o_def)
  have hs: "hard_sigmoid_t t = t\<lparr>entries := map hard_sigmoid (entries t)\<rparr>"
    by (simp add: hard_sigmoid_t_def tensor_prims hard_sigmoid_def clip_by_value_def o_def)
  have lt: "leaky_tanh_t t alpha = Inr (t\<lparr>entries := map (\<lambda>v. leaky_tanh v alpha) (entries t)\<rparr>)"
    by (simp add: leaky_tanh_t_def tensor_prims t_add_def add_zipped_maps leaky_tanh_def
        clip_by_value_def o_def)
  show ?thesis
    unfolding ht hs lt by (simp add: well_shaped_def)
qed

subsection \<open>The layers forward to the activations\<close>

text \<open>
  C5: a \<open>HardTanh\<close> layer built with bounds \<open>lb\<close> and \<open>ub\<close> maps its input to
  \<open>hard_tanh\<close> of the input with these bounds, and a \<open>HardSigmoid\<close> layer maps its input
  to \<open>hard_sigmoid\<close> of it; both layers have no trainable and no non-trainable weight;
  and \<open>compute_output_shape\<close> of both returns the input shape.
\<close>

theorem layers_forward:
  "HardTanh_call (HardTanh_init lb ub) inputs = hard_tanh_t inputs lb ub
   \<and> HardSigmoid_call HardSigmoid_init inputs = hard_sigmoid_t inputs
   \<and> trainable_weights (HardTanh_init lb ub) = []
   \<and> HardTanh_non_trainable_weights (HardTanh_init lb ub) = []
   \<and> trainable_weights HardSigmoid_init = []
   \<and> HardSigmoid_non_trainable_weights HardSigmoid_init = []
   \<and> HardTanh_compute_output_shape (HardTanh_init lb ub) input_shape = input_shape
   \<and> HardSigmoid_compute_output_shape HardSigmoid_init input_shape = input_shape"
  by (simp add: HardTanh_call_def HardTanh_init_def HardSigmoid_call_def HardSigmoid_init_def
      Layer_init_def HardTanh_non_trainable_weights_def HardSigmoid_non_trainable_weights_def
      HardTanh_compute_output_shape_def HardSigmoid_compute_output_shape_def)

subsection \<open>Idempotence\<close>

text \<open>
  C6: with the default bounds, \<open>hard_tanh\<close> applied to its own output returns that output:
  \<open>hard_tanh (hard_tanh x) = hard_tanh x\<close> for every real \<open>x\<close>.
\<close>

theorem hard_tanh_idempotent:
  "hard_tanh_default (hard_tanh_default x) = hard_tanh_default x"
  by (simp add: hard_tanh_default_def hard_tanh_def entry_prims)

subsection \<open>Concrete values\<close>

text \<open>
  C7: \<open>hard_tanh 2.0 = 1.0\<close> with the default bounds; \<open>hard_tanh (-3.0) (-2.0) 2.0 = -2.0\<close>;
  \<open>hard_sigmoid 10.0 = 1.0\<close>; \<open>leaky_tanh 2.0 0.2 = 1.2\<close>; \<open>leaky_tanh (-2.0) 0.2 = -1.2\<close>.
\<close>

theorem concrete_values:
  "hard_tanh_default 2.0 = 1.0
   \<and> hard_tanh (- 3.0) (- 2.0) 2.0 = - 2.0
   \<and> hard_sigmoid 10.0 = 1.0
   \<and> leaky_tanh 2.0 0.2 = 1.2
   \<and> leaky_tanh (- 2.0) 0.2 = - 1.2"
  by (simp add: hard_tanh_default_def hard_tanh_def hard_sigmoid_def leaky_tanh_def entry_prims)

subsection \<open>hard\_sigmoid through hard\_tanh\<close>

text \<open>
  C9: for every real \<open>x\<close>, \<open>hard_sigmoid x\<close> is \<open>hard_tanh\<close> with bounds \<open>0\<close> and \<open>1\<close> at
  \<open>x + 0.5\<close>.
\<close>

theorem hard_sigmoid_is_shifted_hard_tanh:
  "hard_sigmoid x = hard_tanh (x + 0.5) 0.0 1.0"
  by (simp add: hard_sigmoid_def hard_tanh_def)

subsection \<open>Monotonicity\<close>

lemma clip_by_value_mono: "x \<le> y \<Longrightarrow> clip_by_value x lo hi \<le> clip_by_value y lo hi"
  by (simp add: entry_prims)

lemma leak_above_mono:
  assumes "x \<le> y" and "0 \<le> alpha"
  shows "(maximum x 1 - 1) * alpha \<le> (maximum y 1 - 1) * alpha"
  using assms by (intro mult_right_mono) (simp_all add: maximum_def)

lemma leak_below_mono:
  assumes "x \<le> y" and "0 \<le> alpha"
  shows "(minimum x (- 1) + 1) * alpha \<le> (minimum y (- 1) + 1) * alpha"
  using assms by (intro mult_right_mono) (simp_all add: minimum_def)

text \<open>
  C10: for reals \<open>x \<le> y\<close>: \<open>hard_tanh x lo hi \<le> hard_tanh y lo hi\<close> when \<open>lo \<le> hi\<close>;
  \<open>hard_sigmoid x \<le> hard_sigmoid y\<close>; and \<open>leaky_tanh x alpha \<le> leaky_tanh y alpha\<close> when
  \<open>0 \<le> alpha\<close>.
\<close>

theorem activations_monotone:
  "(x \<le> y \<and> lo \<le> hi \<longrightarrow> hard_tanh x lo hi \<le> hard_tanh y lo hi)
   \<and> (x \<le> y \<longrightarrow> hard_sigmoid x \<le> hard_sigmoid y)
   \<and> (x \<le> y \<and> 0 \<le> alpha \<longrightarrow> leaky_tanh x alpha \<le> leaky_tanh y alpha)"
proof (intro conjI impI)
  assume "x \<le> y \<and> lo \<le> hi"
  then show "hard_tanh x lo hi \<le> hard_tanh y lo hi"
    by (simp add: hard_tanh_def clip_by_value_mono)
next
  assume "x \<le> y"
  then show "hard_sigmoid x \<le> hard_sigmoid y"
    by (simp add: hard_sigmoid_def clip_by_value_mono)
next
  assume h: "x \<le> y \<and> 0 \<le> alpha"
  have "clip_by_value x (- 1) 1 \<le> clip_by_value y (- 1) 1"
    using h by (simp add: clip_by_value_mono)
  moreover have "(maximum x 1 - 1) * alpha \<le> (maximum y 1 - 1) * alpha"
    using h by (simp add: leak_above_mono)
  moreover have "(minimum x (- 1) + 1) * alpha \<le> (minimum y (- 1) + 1) * alpha"
    using h by (simp add: leak_below_mono)
  ultimately show "leaky_tanh x alpha \<le> leaky_tanh y alpha"
    unfolding leaky_tanh_def by linarith
qed

theorem activations_monotone_witness:
  "((0 :: real) \<le> 2 \<and> (- 1 :: real) \<le> 1) \<and> hard_tanh 0 (- 1) 1 \<le> hard_tanh 2 (- 1) 1
   \<and> hard_sigmoid 0 \<le> hard_sigmoid 2
   \<and> (0 :: real) \<le> 1/5 \<and> leaky_tanh 0 (1/5) \<le> leaky_tanh 2 (1/5)"
  using activations_monotone [of 0 2 "- 1" 1 "1/5"] by simp

end
